theory Spec2Isabelle
  imports Complex_Main
begin

section \<open>JavaScript values used by the LunaReading web client\<close>

text \<open>
  A JavaScript string is a sequence of UTF-16 code units; a code unit is modelled by its
  number. \<open>js\<close> turns an ASCII literal of the source into such a sequence.
\<close>

type_synonym jsstring = "nat list"

definition js :: "string \<Rightarrow> jsstring" where
  "js s = map of_char s"

text \<open>
  Truthiness of an optional string (\<open>undefined\<close> and \<open>null\<close> are \<open>None\<close>): only a
  non-empty string is truthy.
\<close>

fun truthy :: "jsstring option \<Rightarrow> bool" where
  "truthy None = False"
| "truthy (Some s) = (s \<noteq> [])"

text \<open>
  The characters \<open>String.prototype.trim\<close> removes (and \<open>parseInt\<close> skips): the
  WhiteSpace and LineTerminator code points of ECMAScript.
\<close>

definition is_js_space :: "nat \<Rightarrow> bool" where
  "is_js_space c =
     (c = 9 \<or> c = 10 \<or> c = 11 \<or> c = 12 \<or> c = 13 \<or> c = 32 \<or> c = 160 \<or> c = 5760
      \<or> (8192 \<le> c \<and> c \<le> 8202) \<or> c = 8232 \<or> c = 8233 \<or> c = 8239 \<or> c = 8287
      \<or> c = 12288 \<or> c = 65279)"

definition trim :: "jsstring \<Rightarrow> jsstring" where
  "trim s = rev (dropWhile is_js_space (rev (dropWhile is_js_space s)))"

text \<open>An error caught from an axios call: \<open>err.response?.data?.error\<close> and \<open>err.message\<close>.\<close>

record axios_error =
  response_data_error :: "jsstring option"
  message :: jsstring

text \<open>\<open>err.response?.data?.error || fallback\<close>\<close>

definition error_or :: "axios_error \<Rightarrow> jsstring \<Rightarrow> jsstring" where
  "error_or err fallback =
     (if truthy (response_data_error err) then the (response_data_error err) else fallback)"

section \<open>config.js: the API base URL\<close>

text \<open>
  The three configuration sources read by the module: \<open>process.env.REACT_APP_API_URL\<close>,
  \<open>window.REACT_APP_API_URL\<close> and \<open>process.env.NODE_ENV\<close>.
\<close>

record config_sources =
  env_REACT_APP_API_URL :: "jsstring option"
  window_REACT_APP_API_URL :: "jsstring option"
  env_NODE_ENV :: "jsstring option"

text \<open>The \<open>if\<close>/\<open>else if\<close> chain that selects \<open>API_BASE_URL\<close>.\<close>

definition API_BASE_URL :: "config_sources \<Rightarrow> jsstring" where
  "API_BASE_URL c =
     (if truthy (env_REACT_APP_API_URL c) then the (env_REACT_APP_API_URL c)
      else if truthy (window_REACT_APP_API_URL c) \<and> window_REACT_APP_API_URL c \<noteq> Some []
        then the (window_REACT_APP_API_URL c)
      else if env_NODE_ENV c = Some (js ''production'') then []
      else js ''http://localhost:5001'')"

text \<open>
  \<open>s.replace(/\/$/, '')\<close>: the pattern matches one \<open>/\<close> (code unit 47) at the very end of the
  string, and the first match is replaced by the empty string.
\<close>

definition replace_trailing_slash :: "jsstring \<Rightarrow> jsstring" where
  "replace_trailing_slash s = (if s \<noteq> [] \<and> last s = 47 then butlast s else s)"

definition API_URL :: "config_sources \<Rightarrow> jsstring" where
  "API_URL c =
     (if API_BASE_URL c \<noteq> [] then replace_trailing_slash (API_BASE_URL c) else API_BASE_URL c)"

definition ends_with_slash :: "jsstring \<Rightarrow> bool" where
  "ends_with_slash s = (s \<noteq> [] \<and> last s = 47)"

section \<open>AuthContext: profile fetch and logout\<close>

record profile =
  username :: jsstring
  email :: jsstring
  grade_level :: int
  reading_level :: rat

text \<open>
  The state the provider reads and writes: its React state (\<open>user\<close>, \<open>token\<close>, \<open>loading\<close>),
  the \<open>token\<close> entry of \<open>localStorage\<close>, and the axios defaults.
\<close>

record auth_state =
  user :: "profile option"
  token :: "jsstring option"
  loading :: bool
  localStorage_token :: "jsstring option"
  axios_Authorization :: "jsstring option"
  axios_baseURL :: "jsstring option"

definition logout :: "auth_state \<Rightarrow> auth_state" where
  "logout st = st\<lparr>token := None, user := None, localStorage_token := None,
                  axios_Authorization := None\<rparr>"

text \<open>
  \<open>fetchProfile\<close>, given the outcome of \<open>axios.get\<close>: \<open>Inr\<close> is the response data, \<open>Inl\<close>
  the error thrown. The \<open>finally\<close> block clears \<open>loading\<close> on both paths.
\<close>

definition fetchProfile :: "auth_state \<Rightarrow> axios_error + profile \<Rightarrow> auth_state" where
  "fetchProfile st res =
     (case res of
        Inr data \<Rightarrow> st\<lparr>user := Some data, loading := False\<rparr>
      | Inl err \<Rightarrow> (logout st)\<lparr>loading := False\<rparr>)"

text \<open>
  The effect that runs when \<open>token\<close> changes; \<open>api_url\<close> is the imported \<open>API_URL\<close>.
\<close>

definition token_effect :: "jsstring \<Rightarrow> auth_state \<Rightarrow> axios_error + profile \<Rightarrow> auth_state" where
  "token_effect api_url st res =
     (if truthy (token st) then
        fetchProfile
          (st\<lparr>axios_baseURL := (if api_url \<noteq> [] then Some api_url else axios_baseURL st),
              axios_Authorization := Some (js ''Bearer '' @ the (token st))\<rparr>) res
      else st\<lparr>loading := False\<rparr>)"

section \<open>SessionCreate: the session-create form\<close>

text \<open>
  A value held in \<open>formData\<close>: the initial \<open>total_questions\<close> is the number \<open>5\<close>, every
  value written by \<open>handleChange\<close> is the string \<open>e.target.value\<close>.
\<close>

datatype field_value = FNumber int | FString jsstring

text \<open>
  \<open>parseInt\<close> first converts its argument to a string. For an integer (of magnitude below
  \<open>10^21\<close>, where JavaScript still prints all digits) that is its decimal numeral.
\<close>

fun dec_digits :: "nat \<Rightarrow> jsstring" where
  "dec_digits n = (if n < 10 then [48 + n] else dec_digits (n div 10) @ [48 + n mod 10])"

definition ToString :: "field_value \<Rightarrow> jsstring" where
  "ToString v =
     (case v of
        FString s \<Rightarrow> s
      | FNumber n \<Rightarrow> (if n < 0 then 45 # dec_digits (nat (- n)) else dec_digits (nat n)))"

definition digit_value :: "nat \<Rightarrow> nat option" where
  "digit_value c =
     (if 48 \<le> c \<and> c \<le> 57 then Some (c - 48)
      else if 97 \<le> c \<and> c \<le> 122 then Some (c - 97 + 10)
      else if 65 \<le> c \<and> c \<le> 90 then Some (c - 65 + 10)
      else None)"

definition is_digit :: "nat \<Rightarrow> nat \<Rightarrow> bool" where
  "is_digit R c = (case digit_value c of None \<Rightarrow> False | Some d \<Rightarrow> d < R)"

definition digits_value :: "nat \<Rightarrow> jsstring \<Rightarrow> nat" where
  "digits_value R z = foldl (\<lambda>acc c. acc * R + the (digit_value c)) 0 z"

text \<open>
  \<open>parseInt(v)\<close> with no radix: leading white space is skipped, a sign is read, a \<open>0x\<close> or
  \<open>0X\<close> prefix selects radix 16, and the longest prefix of digits is the value. \<open>None\<close> is
  \<open>NaN\<close> (no digit). The result is exact; the rounding of values beyond \<open>2^53\<close> is not
  modelled.
\<close>

definition parseInt :: "field_value \<Rightarrow> int option" where
  "parseInt v =
     (let S = dropWhile is_js_space (ToString v);
          sign = (case S of c # r \<Rightarrow> (if c = 45 then - 1 else 1) | [] \<Rightarrow> (1::int));
          S1 = (case S of c # r \<Rightarrow> (if c = 45 \<or> c = 43 then r else S) | [] \<Rightarrow> S);
          hex = (case S1 of a # b # r \<Rightarrow> a = 48 \<and> (b = 120 \<or> b = 88) | _ \<Rightarrow> False);
          R = (if hex then 16 else 10);
          S2 = (if hex then drop 2 S1 else S1);
          Z = takeWhile (is_digit R) S2
      in if Z = [] then None else Some (sign * int (digits_value R Z)))"

record formData =
  form_book_title :: field_value
  form_chapter :: field_value
  form_total_questions :: field_value

text \<open>The argument of \<open>useState\<close>.\<close>

definition initial_formData :: formData where
  "initial_formData =
     \<lparr>form_book_title = FString [], form_chapter = FString [],
      form_total_questions = FNumber 5\<rparr>"

text \<open>The part of a change event \<open>handleChange\<close> reads: \<open>e.target.name\<close> and \<open>e.target.value\<close>.\<close>

record change_event =
  target_name :: jsstring
  target_value :: jsstring

text \<open>
  \<open>setFormData({...formData, [e.target.name]: e.target.value})\<close>. A name other than the
  three fields would add a property that nothing reads.
\<close>

definition handleChange :: "formData \<Rightarrow> change_event \<Rightarrow> formData" where
  "handleChange fd e =
     (if target_name e = js ''book_title'' then fd\<lparr>form_book_title := FString (target_value e)\<rparr>
      else if target_name e = js ''chapter'' then fd\<lparr>form_chapter := FString (target_value e)\<rparr>
      else if target_name e = js ''total_questions''
        then fd\<lparr>form_total_questions := FString (target_value e)\<rparr>
      else fd)"

text \<open>The body of the \<open>POST /api/sessions\<close> request built by \<open>handleSubmit\<close>.\<close>

record session_request =
  req_book_title :: field_value
  req_chapter :: field_value
  req_total_questions :: "int option"

definition handleSubmit :: "formData \<Rightarrow> session_request" where
  "handleSubmit fd =
     \<lparr>req_book_title = form_book_title fd, req_chapter = form_chapter fd,
      req_total_questions = parseInt (form_total_questions fd)\<rparr>"

text \<open>
  The form renders two text inputs, named \<open>book_title\<close> and \<open>chapter\<close>, and one \<open>select\<close>
  named \<open>total_questions\<close> with the option values 3, 5, 7 and 10 (strings in the DOM).
  \<open>form_event\<close> holds of the change events these three controls can dispatch.
\<close>

definition select_options :: "jsstring list" where
  "select_options = [js ''3'', js ''5'', js ''7'', js ''10'']"

definition form_event :: "change_event \<Rightarrow> bool" where
  "form_event e =
     (target_name e = js ''book_title'' \<or> target_name e = js ''chapter''
      \<or> (target_name e = js ''total_questions'' \<and> target_value e \<in> set select_options))"

definition count_selectable :: "field_value \<Rightarrow> bool" where
  "count_selectable v = (v = FNumber 5 \<or> (\<exists>s \<in> set select_options. v = FString s))"

section \<open>SessionView: answering the questions of a session\<close>

text \<open>
  A score as it arrives in JSON: a number, \<open>null\<close> or absent. Numbers are modelled by their
  exact rational values; only comparisons with the literal \<open>0.7\<close> are made on them.
  \<open>ge s r\<close> is the JavaScript \<open>s >= r\<close> for a number literal \<open>r\<close>: \<open>null\<close> converts to 0 and
  \<open>undefined\<close> to \<open>NaN\<close>, which compares false.
\<close>

datatype jsnum = JNum rat | JNull | JUndefined

fun ge :: "jsnum \<Rightarrow> rat \<Rightarrow> bool" where
  "ge (JNum x) r = (r \<le> x)"
| "ge JNull r = (r \<le> 0)"
| "ge JUndefined r = False"

text \<open>A question of \<open>response.data.questions\<close>, with the fields the component reads. The
  fields \<open>id\<close>, \<open>answer\<close>, \<open>feedback\<close>, \<open>score\<close> and \<open>rating\<close> carry the prefix \<open>q_\<close>, and those
  of the other records a prefix of their own where their names would clash.\<close>

record question =
  q_id :: nat
  question_number :: nat
  question_text :: jsstring
  q_answer :: "jsstring option"
  q_feedback :: "jsstring option"
  q_score :: jsnum
  q_rating :: "int option"

record session_data =
  session_book_title :: jsstring
  session_chapter :: jsstring
  questions :: "question list"

text \<open>
  An entry of the \<open>feedbacks\<close> state. \<open>fetchSession\<close> builds it without \<open>submissionType\<close>
  (then \<open>undefined\<close>, here \<open>None\<close>); \<open>submitAnswer\<close> copies it from the reply.
\<close>

record feedbackData =
  feedback :: jsstring
  score :: jsnum
  rating :: "int option"
  isSufficient :: bool
  submissionType :: "jsstring option"

text \<open>The body of the reply to \<open>POST /api/questions/<id>/answer\<close>, as \<open>submitAnswer\<close> reads it.\<close>

record answer_response =
  r_feedback :: jsstring
  r_score :: jsnum
  r_rating :: "int option"
  is_sufficient :: bool
  submission_type :: "jsstring option"
  r_examples :: "jsstring list"

text \<open>The React state of the component; the maps are keyed by question id.\<close>

record view_state =
  session :: "session_data option"
  answers :: "nat \<rightharpoonup> jsstring"
  feedbacks :: "nat \<rightharpoonup> feedbackData"
  examples :: "nat \<rightharpoonup> jsstring list"
  submissionStates :: "nat \<rightharpoonup> bool"
  session_loading :: bool
  submitting :: "nat \<rightharpoonup> bool"
  error :: jsstring

text \<open>The arguments of the \<open>useState\<close> calls.\<close>

definition initial_view :: view_state where
  "initial_view =
     \<lparr>session = None, answers = Map.empty, feedbacks = Map.empty, examples = Map.empty,
      submissionStates = Map.empty, session_loading = True, submitting = Map.empty, error = []\<rparr>"

text \<open>
  The HTTP requests a handler issues, in order: the answer post with its \<open>answer_text\<close> and
  \<open>submission_type\<close>, and the session fetch.
\<close>

datatype request = PostAnswer nat jsstring jsstring | GetSession

text \<open>The two \<open>forEach\<close> loops of \<open>fetchSession\<close>; a later question overwrites an earlier
  entry with the same id.\<close>

definition initialAnswers :: "question list \<Rightarrow> (nat \<rightharpoonup> jsstring)" where
  "initialAnswers qs =
     foldl (\<lambda>m q. if truthy (q_answer q) then m(q_id q \<mapsto> the (q_answer q)) else m)
       Map.empty qs"

definition loaded_feedback :: "question \<Rightarrow> feedbackData" where
  "loaded_feedback q =
     \<lparr>feedback = the (q_feedback q), score = q_score q, rating = q_rating q,
      isSufficient = ge (q_score q) (7 / 10), submissionType = None\<rparr>"

definition initialFeedbacks :: "question list \<Rightarrow> (nat \<rightharpoonup> feedbackData)" where
  "initialFeedbacks qs =
     foldl (\<lambda>m q. if truthy (q_feedback q) then m(q_id q \<mapsto> loaded_feedback q) else m)
       Map.empty qs"

definition initialSubmissionStates :: "question list \<Rightarrow> (nat \<rightharpoonup> bool)" where
  "initialSubmissionStates qs =
     foldl (\<lambda>m q. if truthy (q_feedback q) then m(q_id q \<mapsto> True) else m) Map.empty qs"

text \<open>
  \<open>fetchSession\<close>, given the outcome of \<open>axios.get\<close>. On success every map but
  \<open>submitting\<close> is replaced; on failure only the error message is set.
\<close>

definition fetchSession :: "view_state \<Rightarrow> axios_error + session_data \<Rightarrow> view_state" where
  "fetchSession st res =
     (case res of
        Inr data \<Rightarrow>
          st\<lparr>session := Some data,
             answers := initialAnswers (questions data),
             feedbacks := initialFeedbacks (questions data),
             examples := Map.empty,
             submissionStates := initialSubmissionStates (questions data),
             session_loading := False\<rparr>
      | Inl err \<Rightarrow>
          st\<lparr>error := error_or err (js ''Failed to load session''),
             session_loading := False\<rparr>)"

definition handleAnswerChange :: "view_state \<Rightarrow> nat \<Rightarrow> jsstring \<Rightarrow> view_state" where
  "handleAnswerChange st questionId v = st\<lparr>answers := (answers st)(questionId \<mapsto> v)\<rparr>"

text \<open>\<open>!answers[questionId] || !answers[questionId].trim()\<close>\<close>

definition no_answer :: "jsstring option \<Rightarrow> bool" where
  "no_answer a = (\<not> truthy a \<or> trim (the a) = [])"

text \<open>
  \<open>submitAnswer\<close>, given the outcome \<open>posted\<close> of the answer post and the outcome \<open>fetched\<close>
  of the session fetch that follows a final or sufficient submission. The result is the
  state once both have settled, and the requests issued. The \<open>finally\<close> block resets
  \<open>submitting\<close> before the fetch settles.
\<close>

definition submitAnswer ::
  "view_state \<Rightarrow> nat \<Rightarrow> jsstring \<Rightarrow> axios_error + answer_response \<Rightarrow>
   axios_error + session_data \<Rightarrow> view_state \<times> request list" where
  "submitAnswer st questionId submissionType' posted fetched =
     (if no_answer (answers st questionId)
      then (st\<lparr>error := js ''Please provide an answer before submitting''\<rparr>, [])
      else
        let st1 = st\<lparr>submitting := (submitting st)(questionId \<mapsto> True), error := []\<rparr>;
            req = PostAnswer questionId (the (answers st questionId)) submissionType'
        in case posted of
             Inl err \<Rightarrow>
               (st1\<lparr>error := error_or err (js ''Failed to submit answer''),
                    submitting := (submitting st)(questionId \<mapsto> False)\<rparr>, [req])
           | Inr data \<Rightarrow>
               let feedbackData =
                     \<lparr>feedback = r_feedback data, score = r_score data, rating = r_rating data,
                      isSufficient = is_sufficient data, submissionType = submission_type data\<rparr>;
                   st2 = st1\<lparr>feedbacks := (feedbacks st)(questionId \<mapsto> feedbackData)\<rparr>;
                   st3 = (if r_examples data \<noteq> []
                          then st2\<lparr>examples := (examples st)(questionId \<mapsto> r_examples data),
                                   submissionStates :=
                                     (submissionStates st)(questionId \<mapsto> True)\<rparr>
                          else st2);
                   st4 = st3\<lparr>submitting := (submitting st)(questionId \<mapsto> False)\<rparr>
               in if submissionType' = js ''final'' \<or> is_sufficient data
                  then (fetchSession st4 fetched, [req, GetSession])
                  else (st4, [req]))"

text \<open>\<open>feedbacks[id]?.isSufficient\<close>\<close>

definition flagged_sufficient :: "view_state \<Rightarrow> nat \<Rightarrow> bool" where
  "flagged_sufficient st i = (case feedbacks st i of None \<Rightarrow> False | Some f \<Rightarrow> isSufficient f)"

text \<open>
  \<open>allCompleted\<close> is computed once the session is loaded; before that the component returns
  early and shows no completion banner (\<open>False\<close> here).
\<close>

definition allCompleted :: "view_state \<Rightarrow> bool" where
  "allCompleted st =
     (case session st of
        None \<Rightarrow> False
      | Some s \<Rightarrow> list_all (\<lambda>q. flagged_sufficient st (q_id q) \<or> ge (q_score q) (7 / 10))
                   (questions s))"

text \<open>The constants computed for each question card.\<close>

definition hasFirstSubmission :: "view_state \<Rightarrow> question \<Rightarrow> bool" where
  "hasFirstSubmission st q =
     (case submissionStates st (q_id q) of None \<Rightarrow> False | Some b \<Rightarrow> b)"

definition isCompleted :: "view_state \<Rightarrow> question \<Rightarrow> bool" where
  "isCompleted st q = (flagged_sufficient st (q_id q) \<or> ge (q_score q) (7 / 10))"

text \<open>\<open>feedback?.submissionType === 'initial'\<close>\<close>

definition feedback_from_initial :: "view_state \<Rightarrow> question \<Rightarrow> bool" where
  "feedback_from_initial st q =
     (case feedbacks st (q_id q) of
        None \<Rightarrow> False
      | Some f \<Rightarrow> submissionType f = Some (js ''initial''))"

definition showActionButtons :: "view_state \<Rightarrow> question \<Rightarrow> bool" where
  "showActionButtons st q =
     (hasFirstSubmission st q \<and> \<not> isCompleted st q \<and> feedback_from_initial st q)"

text \<open>
  The submission types of the submit buttons rendered on a question card, in document
  order: the ``Submit Answer'' button (\<open>initial\<close>) inside the \<open>!isCompleted\<close> branch, and the
  ``Try Again'' (\<open>retry\<close>) and ``Final Submit'' (\<open>final\<close>) buttons inside the block guarded by
  \<open>feedback && !isCompleted && feedback.submissionType === 'initial'\<close> and then by
  \<open>showActionButtons\<close>.
\<close>

definition submit_buttons :: "view_state \<Rightarrow> question \<Rightarrow> jsstring list" where
  "submit_buttons st q =
     (if \<not> isCompleted st q \<and> \<not> hasFirstSubmission st q then [js ''initial''] else [])
     @ (if feedbacks st (q_id q) \<noteq> None \<and> \<not> isCompleted st q \<and> feedback_from_initial st q
           \<and> showActionButtons st q
        then [js ''retry'', js ''final''] else [])"

text \<open>The \<open>disabled\<close> attribute shared by the three buttons.\<close>

definition buttons_disabled :: "view_state \<Rightarrow> question \<Rightarrow> bool" where
  "buttons_disabled st q =
     ((case submitting st (q_id q) of None \<Rightarrow> False | Some b \<Rightarrow> b)
      \<or> no_answer (answers st (q_id q)))"

text \<open>The questions the component renders.\<close>

definition shown_questions :: "view_state \<Rightarrow> question list" where
  "shown_questions st = (case session st of None \<Rightarrow> [] | Some s \<Rightarrow> questions s)"

subsection \<open>The server's side of the answer exchange\<close>

text \<open>Modelled from the spec: what the backend's AI evaluator returns for an answer, namely
  score, rating, feedback and example answers.\<close>

record evaluation =
  ev_score :: rat
  ev_rating :: int
  ev_feedback :: jsstring
  ev_examples :: "jsstring list"

text \<open>
  Modelled from the spec: the reply of the answer route, which is backend code outside
  the source tree. It carries the evaluator's results, echoes the requested submission
  type, and its sufficiency flag is derived as score \<open>\<ge>\<close> threshold (0.7).
\<close>

definition answer_reply :: "jsstring \<Rightarrow> evaluation \<Rightarrow> answer_response" where
  "answer_reply ty ev =
     \<lparr>r_feedback = ev_feedback ev, r_score = JNum (ev_score ev), r_rating = Some (ev_rating ev),
      is_sufficient = (7 / 10 \<le> ev_score ev), submission_type = Some ty,
      r_examples = ev_examples ev\<rparr>"

text \<open>
  Modelled from the spec: the session route is backend code outside the source tree. The
  question's current score is overwritten with the latest submission's result, so a
  session fetched after a submission on question \<open>i\<close> scored \<open>x\<close> holds \<open>x\<close> on every
  question with that id. A failed fetch delivers nothing.
\<close>

definition stores_score :: "session_data \<Rightarrow> nat \<Rightarrow> rat \<Rightarrow> bool" where
  "stores_score d i x = list_all (\<lambda>q. q_id q = i \<longrightarrow> q_score q = JNum x) (questions d)"

definition refreshed_with :: "axios_error + session_data \<Rightarrow> nat \<Rightarrow> rat \<Rightarrow> bool" where
  "refreshed_with fetched i x = (case fetched of Inl err \<Rightarrow> True | Inr d \<Rightarrow> stores_score d i x)"

subsection \<open>A one-question session used in the examples\<close>

definition sample_question :: question where
  "sample_question =
     \<lparr>q_id = 1, question_number = 1, question_text = js ''Why did Stanley dig?'',
      q_answer = None, q_feedback = None, q_score = JNull, q_rating = None\<rparr>"

definition sample_session :: "question \<Rightarrow> session_data" where
  "sample_session q =
     \<lparr>session_book_title = js ''Holes'', session_chapter = js ''Chapter 1'', questions = [q]\<rparr>"

definition sample_evaluation :: "rat \<Rightarrow> evaluation" where
  "sample_evaluation x =
     \<lparr>ev_score = x, ev_rating = 3, ev_feedback = js ''Add detail.'',
      ev_examples = [js ''He dug because [_____].'']\<rparr>"

text \<open>The sample question as the server returns it once an answer scored \<open>x\<close> is stored.\<close>

definition answered_question :: "rat \<Rightarrow> question" where
  "answered_question x =
     sample_question\<lparr>q_answer := Some (js ''To build character''),
                     q_feedback := Some (js ''Add detail.''), q_score := JNum x,
                     q_rating := Some 3\<rparr>"

definition network_down :: axios_error where
  "network_down = \<lparr>response_data_error = None, message = js ''Network Error''\<rparr>"

text \<open>The view after the session has loaded and an answer has been typed.\<close>

definition view_ready :: view_state where
  "view_ready =
     handleAnswerChange (fetchSession initial_view (Inr (sample_session sample_question))) 1
       (js ''To build character'')"

text \<open>The view after an \<open>initial\<close> submission scored 0.4 (no fetch follows it).\<close>

definition view_after_initial :: view_state where
  "view_after_initial =
     fst (submitAnswer view_ready 1 (js ''initial'')
            (Inr (answer_reply (js ''initial'') (sample_evaluation (4 / 10)))) (Inl network_down))"

section \<open>The submission state machine and the reading-level aggregator of the server\<close>

text \<open>
  The answer route and the reading-level update run in the Flask backend, which is not
  part of the source tree; the client above only calls them. The definitions of this
  section follow the specification's sections 4.1, 4.2 and 7.
\<close>

text \<open>Modelled from the spec: the submission types a caller of the backend's answer route
  may declare.\<close>

datatype submission_kind = Initial | Retry | Final

text \<open>Modelled from the spec: the states of a question in the backend's state machine.\<close>

datatype question_state =
  NOT_ATTEMPTED | AWAITING_FIRST_FEEDBACK | AWAITING_RETRY | SUFFICIENT | FINALIZED

text \<open>Modelled from the spec: the error kinds the backend's answer route distinguishes
  (those raised before anything is persisted).\<close>

datatype core_error =
  EmptyAnswerError | InvalidSubmissionOrder | QuestionAlreadyComplete | EvaluatorFailure

text \<open>Modelled from the spec: a row of the backend's append-only answer table.\<close>

record answer_row =
  row_text :: jsstring
  row_type :: submission_kind
  row_score :: rat
  row_rating :: int

text \<open>Modelled from the spec: the sufficiency threshold, a configured constant of the
  backend with default 0.7.\<close>

definition threshold :: rat where
  "threshold = 7 / 10"

text \<open>Modelled from the spec: the \<open>isTerminal(state)\<close> predicate of the backend's state
  machine; \<open>SUFFICIENT\<close> and \<open>FINALIZED\<close> are the terminal states.\<close>

definition isTerminal :: "question_state \<Rightarrow> bool" where
  "isTerminal s = (s = SUFFICIENT \<or> s = FINALIZED)"

text \<open>
  Modelled from the spec: the state a question of the backend moves to when an answer of
  the given type and score is recorded. A \<open>final\<close> submission moves it to \<open>FINALIZED\<close>
  regardless of score; an \<open>initial\<close> or \<open>retry\<close> submission moves it to \<open>SUFFICIENT\<close> when
  the score reaches the threshold and to \<open>AWAITING_RETRY\<close> otherwise.
\<close>

definition state_after :: "submission_kind \<Rightarrow> rat \<Rightarrow> question_state" where
  "state_after ty x =
     (if ty = Final then FINALIZED else if threshold \<le> x then SUFFICIENT else AWAITING_RETRY)"

text \<open>
  Modelled from the spec: the backend derives the state of a question from its answer
  history (oldest first). No answer gives \<open>NOT_ATTEMPTED\<close>; a terminal state, once
  reached, is kept.
\<close>

definition derivedState :: "answer_row list \<Rightarrow> question_state" where
  "derivedState history =
     foldl (\<lambda>s a. if isTerminal s then s else state_after (row_type a) (row_score a))
       NOT_ATTEMPTED history"

text \<open>
  Modelled from the spec: the transition table of the backend's state machine. Only
  \<open>initial\<close> is legal from \<open>NOT_ATTEMPTED\<close>, \<open>retry\<close> and \<open>final\<close> from \<open>AWAITING_RETRY\<close>, nothing
  from a terminal state; the spec names no legal type for the transient
  \<open>AWAITING_FIRST_FEEDBACK\<close>.
\<close>

fun legalTypes :: "question_state \<Rightarrow> submission_kind list" where
  "legalTypes NOT_ATTEMPTED = [Initial]"
| "legalTypes AWAITING_RETRY = [Retry, Final]"
| "legalTypes AWAITING_FIRST_FEEDBACK = []"
| "legalTypes SUFFICIENT = []"
| "legalTypes FINALIZED = []"

text \<open>
  Modelled from the spec: \<open>recordSubmission\<close>, the backend operation behind the answer
  route. The text is validated first (\<open>EmptyAnswerError\<close>, before any evaluator call), then
  the requested type against the derived state (\<open>QuestionAlreadyComplete\<close> on a terminal
  question, \<open>InvalidSubmissionOrder\<close> for a type that is not legal), then the evaluator
  is consulted; \<open>None\<close> stands for an evaluator that raised or returned no usable score
  (\<open>EvaluatorFailure\<close>). On success exactly one row is appended and the new state returned;
  on an error nothing is recorded.
\<close>

definition recordSubmission ::
  "answer_row list \<Rightarrow> submission_kind \<Rightarrow> jsstring \<Rightarrow> evaluation option \<Rightarrow>
   core_error + answer_row list \<times> question_state" where
  "recordSubmission history ty text evaluated =
     (if trim text = [] then Inl EmptyAnswerError
      else if isTerminal (derivedState history) then Inl QuestionAlreadyComplete
      else if ty \<notin> set (legalTypes (derivedState history)) then Inl InvalidSubmissionOrder
      else case evaluated of
             None \<Rightarrow> Inl EvaluatorFailure
           | Some ev \<Rightarrow>
               Inr (history @ [\<lparr>row_text = text, row_type = ty, row_score = ev_score ev,
                                 row_rating = ev_rating ev\<rparr>],
                    state_after ty (ev_score ev)))"

text \<open>Modelled from the spec: the backend's user entity and, with it, the answers recorded
  for that user's questions, oldest first.\<close>

record user_row =
  user_grade_level :: nat
  user_reading_level :: rat

record core_store =
  store_user :: user_row
  store_answers :: "answer_row list"

text \<open>Modelled from the spec: a terminal answer of the backend's answer table is one that
  is sufficient (score at least the threshold) or of type \<open>final\<close>.\<close>

definition is_terminal_answer :: "answer_row \<Rightarrow> bool" where
  "is_terminal_answer a = (threshold \<le> row_score a \<or> row_type a = Final)"

text \<open>Modelled from the spec: \<open>getTerminalAnswers\<close> of the backend's persistence layer.\<close>

definition getTerminalAnswers :: "core_store \<Rightarrow> answer_row list" where
  "getTerminalAnswers st = filter is_terminal_answer (store_answers st)"

text \<open>Modelled from the spec: the arithmetic mean the backend's aggregator takes of the
  terminal scores (it is applied to non-empty lists only).\<close>

definition mean :: "rat list \<Rightarrow> rat" where
  "mean xs = sum_list xs / of_nat (length xs)"

text \<open>
  Modelled from the spec: \<open>recomputeReadingLevel\<close> of the backend. The reading level is
  recomputed from the whole history: the arithmetic mean of the terminal scores is mapped
  onto a scale anchored at the user's grade level, and the result is written to the user.
  The spec leaves the scaling curve open, so it is the parameter \<open>scale\<close>. With no
  terminal answer the reading level stays as it is.
\<close>

definition recomputeReadingLevel :: "(rat \<Rightarrow> nat \<Rightarrow> rat) \<Rightarrow> core_store \<Rightarrow> core_store" where
  "recomputeReadingLevel scale st =
     (let xs = map row_score (getTerminalAnswers st)
      in if xs = [] then st
         else st\<lparr>store_user := (store_user st)
                   \<lparr>user_reading_level := scale (mean xs) (user_grade_level (store_user st))\<rparr>\<rparr>)"

text \<open>
  Modelled from the spec: one scaling curve of the kind the spec describes for the
  backend, on which a mean at the threshold maps to the grade level and other means shift
  the estimate proportionally, by the factor \<open>k\<close>.
\<close>

definition linear_scale :: "rat \<Rightarrow> rat \<Rightarrow> nat \<Rightarrow> rat" where
  "linear_scale k m g = of_nat g + k * (m - threshold)"






subsection \<open>Sample histories used in the examples\<close>

definition sample_row :: "submission_kind \<Rightarrow> rat \<Rightarrow> answer_row" where
  "sample_row ty x =
     \<lparr>row_text = js ''To build character'', row_type = ty, row_score = x, row_rating = 3\<rparr>"

definition sample_store :: "rat \<Rightarrow> answer_row list \<Rightarrow> core_store" where
  "sample_store level rows =
     \<lparr>store_user = \<lparr>user_grade_level = 4, user_reading_level = level\<rparr>, store_answers = rows\<rparr>"

section \<open>Properties of config.js\<close>

lemma replace_trailing_slash_ends:
  "ends_with_slash (replace_trailing_slash s) \<longleftrightarrow>
     (2 \<le> length s \<and> last s = 47 \<and> last (butlast s) = 47)"
proof (cases s rule: rev_cases)
  case Nil
  then show ?thesis by (simp add: replace_trailing_slash_def ends_with_slash_def)
next
  case (snoc ys y)
  then show ?thesis
    by (cases ys rule: rev_cases)
       (auto simp: replace_trailing_slash_def ends_with_slash_def butlast_append)
qed

text \<open>
  C9 as stated fails: with the build-time variable set to \<open>http://api//\<close> the exported
  constant is \<open>http://api/\<close>, which ends with a slash.
\<close>

theorem API_URL_trailing_slash_counterexample:
  "ends_with_slash
     (API_URL \<lparr>env_REACT_APP_API_URL = Some (js ''http://api//''),
               window_REACT_APP_API_URL = None, env_NODE_ENV = None\<rparr>)"
  by (simp add: API_URL_def API_BASE_URL_def replace_trailing_slash_def ends_with_slash_def
      js_def)

text \<open>
  C9, amended: exactly one trailing slash is removed. The exported \<open>API_URL\<close> ends with a
  slash exactly when the selected base URL ends with two slashes; it never does when
  neither the build-time variable nor the runtime window variable is set, that is on the
  production relative path and on the development fallback.
\<close>

theorem API_URL_single_slash_removed:
  "(ends_with_slash (API_URL c) \<longleftrightarrow>
      (2 \<le> length (API_BASE_URL c) \<and> last (API_BASE_URL c) = 47
         \<and> last (butlast (API_BASE_URL c)) = 47))
   \<and> (\<not> truthy (env_REACT_APP_API_URL c) \<and> \<not> truthy (window_REACT_APP_API_URL c) \<longrightarrow>
        \<not> ends_with_slash (API_URL c))"
proof
  show "ends_with_slash (API_URL c) \<longleftrightarrow>
      (2 \<le> length (API_BASE_URL c) \<and> last (API_BASE_URL c) = 47
         \<and> last (butlast (API_BASE_URL c)) = 47)"
  proof (cases "API_BASE_URL c = []")
    case True
    then show ?thesis by (simp add: API_URL_def ends_with_slash_def)
  next
    case False
    then show ?thesis by (simp add: API_URL_def replace_trailing_slash_ends)
  qed
next
  show "\<not> truthy (env_REACT_APP_API_URL c) \<and> \<not> truthy (window_REACT_APP_API_URL c) \<longrightarrow>
        \<not> ends_with_slash (API_URL c)"
    by (simp add: API_URL_def API_BASE_URL_def replace_trailing_slash_def ends_with_slash_def
        js_def)
qed

theorem API_URL_single_slash_removed_witness:
  "\<not> ends_with_slash
     (API_URL \<lparr>env_REACT_APP_API_URL = Some (js ''http://api/''),
               window_REACT_APP_API_URL = None, env_NODE_ENV = None\<rparr>)
   \<and> \<not> truthy (env_REACT_APP_API_URL
         \<lparr>env_REACT_APP_API_URL = None, window_REACT_APP_API_URL = Some [],
          env_NODE_ENV = None\<rparr>)
   \<and> \<not> truthy (window_REACT_APP_API_URL
         \<lparr>env_REACT_APP_API_URL = None, window_REACT_APP_API_URL = Some [],
          env_NODE_ENV = None\<rparr>)
   \<and> \<not> ends_with_slash
     (API_URL \<lparr>env_REACT_APP_API_URL = None, window_REACT_APP_API_URL = Some [],
               env_NODE_ENV = None\<rparr>)"
proof -
  have a: "\<not> truthy (env_REACT_APP_API_URL
         \<lparr>env_REACT_APP_API_URL = None, window_REACT_APP_API_URL = Some [],
          env_NODE_ENV = None\<rparr>)"
    and b: "\<not> truthy (window_REACT_APP_API_URL
         \<lparr>env_REACT_APP_API_URL = None, window_REACT_APP_API_URL = Some [],
          env_NODE_ENV = None\<rparr>)"
    by simp_all
  have "\<not> ends_with_slash
     (API_URL \<lparr>env_REACT_APP_API_URL = Some (js ''http://api/''),
               window_REACT_APP_API_URL = None, env_NODE_ENV = None\<rparr>)"
    using API_URL_single_slash_removed
      [of "\<lparr>env_REACT_APP_API_URL = Some (js ''http://api/''),
            window_REACT_APP_API_URL = None, env_NODE_ENV = None\<rparr>"]
    by (simp add: API_BASE_URL_def js_def)
  moreover have "\<not> ends_with_slash
     (API_URL \<lparr>env_REACT_APP_API_URL = None, window_REACT_APP_API_URL = Some [],
               env_NODE_ENV = None\<rparr>)"
    using API_URL_single_slash_removed
      [of "\<lparr>env_REACT_APP_API_URL = None, window_REACT_APP_API_URL = Some [],
            env_NODE_ENV = None\<rparr>"] a b
    by blast
  ultimately show ?thesis using a b by blast
qed

section \<open>Properties of AuthContext\<close>

text \<open>
  C10: when the profile request fails, \<open>fetchProfile\<close> runs \<open>logout\<close>: the React \<open>token\<close> and
  \<open>user\<close> are null, the \<open>token\<close> entry of \<open>localStorage\<close> is removed and the default
  \<open>Authorization\<close> header is deleted. The re-run of the token effect that the change of
  \<open>token\<close> triggers restores none of them.
\<close>

theorem fetchProfile_failure_logs_out:
  "token (fetchProfile st (Inl err)) = None
   \<and> user (fetchProfile st (Inl err)) = None
   \<and> localStorage_token (fetchProfile st (Inl err)) = None
   \<and> axios_Authorization (fetchProfile st (Inl err)) = None
   \<and> token (token_effect api_url (fetchProfile st (Inl err)) res) = None
   \<and> user (token_effect api_url (fetchProfile st (Inl err)) res) = None
   \<and> localStorage_token (token_effect api_url (fetchProfile st (Inl err)) res) = None
   \<and> axios_Authorization (token_effect api_url (fetchProfile st (Inl err)) res) = None"
  by (simp add: fetchProfile_def logout_def token_effect_def)

section \<open>Properties of SessionCreate\<close>

lemma parseInt_selectable:
  "count_selectable v \<Longrightarrow> parseInt v \<in> {Some 3, Some 5, Some 7, Some 10}"
  unfolding count_selectable_def select_options_def
  by (auto simp: parseInt_def ToString_def js_def is_js_space_def is_digit_def
      digit_value_def digits_value_def)

lemma handleChange_selectable:
  "form_event e \<Longrightarrow> count_selectable (form_total_questions fd) \<Longrightarrow>
   count_selectable (form_total_questions (handleChange fd e))"
  by (auto simp: handleChange_def form_event_def count_selectable_def js_def)

lemma foldl_handleChange_selectable:
  "list_all form_event es \<Longrightarrow> count_selectable (form_total_questions fd) \<Longrightarrow>
   count_selectable (form_total_questions (foldl handleChange fd es))"
  by (induction es arbitrary: fd) (simp_all add: handleChange_selectable)

text \<open>
  C8: whatever sequence of change events the form's controls dispatch before the form is
  submitted, the request carries \<open>total_questions\<close> as one of the integers 3, 5, 7, 10; with
  no change at all it carries the default 5.
\<close>

theorem total_questions_from_fixed_set:
  "list_all form_event es \<Longrightarrow>
   req_total_questions (handleSubmit (foldl handleChange initial_formData es))
     \<in> {Some 3, Some 5, Some 7, Some 10}
   \<and> req_total_questions (handleSubmit initial_formData) = Some 5"
proof -
  assume es: "list_all form_event es"
  have init: "count_selectable (form_total_questions initial_formData)"
    by (simp add: count_selectable_def initial_formData_def)
  have "count_selectable (form_total_questions (foldl handleChange initial_formData es))"
    using es init by (rule foldl_handleChange_selectable)
  then have "parseInt (form_total_questions (foldl handleChange initial_formData es))
      \<in> {Some 3, Some 5, Some 7, Some 10}"
    by (rule parseInt_selectable)
  moreover have "parseInt (form_total_questions initial_formData) = Some 5"
    by (simp add: initial_formData_def parseInt_def ToString_def is_js_space_def is_digit_def
        digit_value_def digits_value_def)
  ultimately show ?thesis by (simp add: handleSubmit_def)
qed

theorem total_questions_from_fixed_set_witness:
  "list_all form_event
     [\<lparr>target_name = js ''book_title'', target_value = js ''Holes''\<rparr>,
      \<lparr>target_name = js ''total_questions'', target_value = js ''10''\<rparr>]
   \<and> req_total_questions (handleSubmit (foldl handleChange initial_formData
     [\<lparr>target_name = js ''book_title'', target_value = js ''Holes''\<rparr>,
      \<lparr>target_name = js ''total_questions'', target_value = js ''10''\<rparr>])) = Some 10"
proof -
  have ev: "list_all form_event
     [\<lparr>target_name = js ''book_title'', target_value = js ''Holes''\<rparr>,
      \<lparr>target_name = js ''total_questions'', target_value = js ''10''\<rparr>]"
    by (simp add: form_event_def select_options_def js_def)
  have "req_total_questions (handleSubmit (foldl handleChange initial_formData
     [\<lparr>target_name = js ''book_title'', target_value = js ''Holes''\<rparr>,
      \<lparr>target_name = js ''total_questions'', target_value = js ''10''\<rparr>])) = Some 10"
    by (simp add: handleSubmit_def handleChange_def initial_formData_def js_def
        parseInt_def ToString_def is_js_space_def is_digit_def digit_value_def digits_value_def)
  with ev total_questions_from_fixed_set [OF ev] show ?thesis by simp
qed

section \<open>Properties of SessionView\<close>

lemmas sample_defs = initial_view_def sample_question_def sample_session_def
  sample_evaluation_def answered_question_def network_down_def view_ready_def
  view_after_initial_def

lemmas view_defs = submitAnswer_def fetchSession_def handleAnswerChange_def answer_reply_def
  no_answer_def trim_def is_js_space_def js_def initialAnswers_def initialFeedbacks_def
  initialSubmissionStates_def loaded_feedback_def isCompleted_def flagged_sufficient_def
  hasFirstSubmission_def showActionButtons_def feedback_from_initial_def submit_buttons_def
  error_or_def

subsection \<open>Blank answers\<close>

lemma no_answer_cases:
  "no_answer None" "no_answer (Some [])" "no_answer (Some (js '' ''))"
  "no_answer (Some [9, 32, 10, 160, 8232])" "\<not> no_answer (Some (js '' a ''))"
  by (simp_all add: no_answer_def trim_def is_js_space_def js_def)

text \<open>
  C5: when the answer of the question is missing, empty or white space only,
  \<open>submitAnswer\<close> returns after setting the error message: it issues no request (so the
  evaluator is not called and no answer is recorded), and the session, the feedbacks and
  with them the completion status and the submit buttons of every question are unchanged.
\<close>

theorem blank_answer_rejected:
  "no_answer (answers st i) \<Longrightarrow>
   submitAnswer st i ty posted fetched
     = (st\<lparr>error := js ''Please provide an answer before submitting''\<rparr>, [])
   \<and> session (fst (submitAnswer st i ty posted fetched)) = session st
   \<and> feedbacks (fst (submitAnswer st i ty posted fetched)) = feedbacks st
   \<and> isCompleted (fst (submitAnswer st i ty posted fetched)) q = isCompleted st q
   \<and> submit_buttons (fst (submitAnswer st i ty posted fetched)) q = submit_buttons st q"
  by (simp add: submitAnswer_def isCompleted_def submit_buttons_def hasFirstSubmission_def
      showActionButtons_def feedback_from_initial_def flagged_sufficient_def)

theorem blank_answer_rejected_witness:
  "no_answer (answers (handleAnswerChange view_ready 1 [32, 9, 10]) 1)
   \<and> snd (submitAnswer (handleAnswerChange view_ready 1 [32, 9, 10]) 1 (js ''initial'')
            (Inr (answer_reply (js ''initial'') (sample_evaluation (9 / 10))))
            (Inr (sample_session (answered_question (9 / 10))))) = []
   \<and> submit_buttons
        (fst (submitAnswer (handleAnswerChange view_ready 1 [32, 9, 10]) 1 (js ''initial'')
            (Inr (answer_reply (js ''initial'') (sample_evaluation (9 / 10))))
            (Inr (sample_session (answered_question (9 / 10)))))) sample_question
       = [js ''initial'']"
proof -
  have blank: "no_answer (answers (handleAnswerChange view_ready 1 [32, 9, 10]) 1)"
    by (simp add: handleAnswerChange_def no_answer_def trim_def is_js_space_def)
  have before: "submit_buttons (handleAnswerChange view_ready 1 [32, 9, 10]) sample_question
      = [js ''initial'']"
    by (simp add: sample_defs view_defs)
  note rejected = blank_answer_rejected [OF blank, of "js ''initial''"
      "Inr (answer_reply (js ''initial'') (sample_evaluation (9 / 10)))"
      "Inr (sample_session (answered_question (9 / 10)))" sample_question]
  from rejected have "snd (submitAnswer (handleAnswerChange view_ready 1 [32, 9, 10]) 1
            (js ''initial'') (Inr (answer_reply (js ''initial'') (sample_evaluation (9 / 10))))
            (Inr (sample_session (answered_question (9 / 10))))) = []"
    by simp
  moreover from rejected before have "submit_buttons
        (fst (submitAnswer (handleAnswerChange view_ready 1 [32, 9, 10]) 1 (js ''initial'')
            (Inr (answer_reply (js ''initial'') (sample_evaluation (9 / 10))))
            (Inr (sample_session (answered_question (9 / 10)))))) sample_question
       = [js ''initial'']"
    by metis
  ultimately show ?thesis using blank by blast
qed

subsection \<open>Sufficient answers\<close>

lemma completed_no_buttons: "isCompleted st q \<Longrightarrow> submit_buttons st q = []"
  by (simp add: submit_buttons_def)

text \<open>
  C1: a submission of any type (so of type \<open>initial\<close> and of type \<open>retry\<close>) whose evaluation
  scores at least 0.7 leaves the question completed in the view, whether the session
  fetch that follows succeeds or fails, and no submit button is rendered for it any more.
\<close>

theorem sufficient_score_completes:
  assumes "\<not> no_answer (answers st i)"
    and "7 / 10 \<le> ev_score ev"
    and "refreshed_with fetched i (ev_score ev)"
    and "q \<in> set (shown_questions (fst (submitAnswer st i ty (Inr (answer_reply ty ev)) fetched)))"
    and "q_id q = i"
  shows "isCompleted (fst (submitAnswer st i ty (Inr (answer_reply ty ev)) fetched)) q
         \<and> submit_buttons (fst (submitAnswer st i ty (Inr (answer_reply ty ev)) fetched)) q = []"
proof -
  have "isCompleted (fst (submitAnswer st i ty (Inr (answer_reply ty ev)) fetched)) q"
  proof (cases fetched)
    case (Inl err)
    with assms(1,2,5) show ?thesis
      by (simp add: submitAnswer_def answer_reply_def fetchSession_def isCompleted_def
          flagged_sufficient_def Let_def)
  next
    case (Inr d)
    with assms(1,2,4) have "q \<in> set (questions d)"
      by (simp add: submitAnswer_def answer_reply_def fetchSession_def shown_questions_def
          Let_def)
    moreover from Inr assms(3) have "stores_score d i (ev_score ev)"
      by (simp add: refreshed_with_def)
    ultimately have "q_score q = JNum (ev_score ev)"
      using assms(5) by (auto simp: stores_score_def list_all_iff)
    with assms(2) show ?thesis by (simp add: isCompleted_def)
  qed
  then show ?thesis by (simp add: completed_no_buttons)
qed

theorem sufficient_score_completes_witness:
  "\<not> no_answer (answers view_after_initial 1)
   \<and> 7 / 10 \<le> ev_score (sample_evaluation (85 / 100))
   \<and> refreshed_with (Inr (sample_session (answered_question (85 / 100)))) 1
        (ev_score (sample_evaluation (85 / 100)))
   \<and> answered_question (85 / 100) \<in> set (shown_questions
        (fst (submitAnswer view_after_initial 1 (js ''retry'')
               (Inr (answer_reply (js ''retry'') (sample_evaluation (85 / 100))))
               (Inr (sample_session (answered_question (85 / 100)))))))
   \<and> q_id (answered_question (85 / 100)) = 1
   \<and> isCompleted
        (fst (submitAnswer view_after_initial 1 (js ''retry'')
               (Inr (answer_reply (js ''retry'') (sample_evaluation (85 / 100))))
               (Inr (sample_session (answered_question (85 / 100))))))
        (answered_question (85 / 100))"
proof -
  have a: "\<not> no_answer (answers view_after_initial 1)"
    by (simp add: sample_defs view_defs)
  have b: "7 / 10 \<le> ev_score (sample_evaluation (85 / 100))"
    by (simp add: sample_evaluation_def)
  have c: "refreshed_with (Inr (sample_session (answered_question (85 / 100)))) 1
        (ev_score (sample_evaluation (85 / 100)))"
    by (simp add: sample_defs refreshed_with_def stores_score_def)
  have d: "answered_question (85 / 100) \<in> set (shown_questions
        (fst (submitAnswer view_after_initial 1 (js ''retry'')
               (Inr (answer_reply (js ''retry'') (sample_evaluation (85 / 100))))
               (Inr (sample_session (answered_question (85 / 100)))))))"
    by (simp add: sample_defs view_defs shown_questions_def)
  have e: "q_id (answered_question (85 / 100)) = 1"
    by (simp add: sample_defs)
  from sufficient_score_completes [OF a b c d e] a b c d e show ?thesis by blast
qed

subsection \<open>What a loaded session shows\<close>

lemma foldl_upd_origin:
  "foldl (\<lambda>m q. if P q then m(k q \<mapsto> v q) else m) m0 qs x = Some y \<Longrightarrow>
   m0 x = Some y \<or> (\<exists>q \<in> set qs. P q \<and> k q = x \<and> v q = y)"
proof (induction qs arbitrary: m0)
  case Nil
  then show ?case by simp
next
  case (Cons a qs)
  from Cons.prems
  have "foldl (\<lambda>m q. if P q then m(k q \<mapsto> v q) else m)
          (if P a then m0(k a \<mapsto> v a) else m0) qs x = Some y"
    by simp
  from Cons.IH [OF this] show ?case
    by (auto split: if_splits)
qed

lemma initialFeedbacks_origin:
  "initialFeedbacks qs i = Some f \<Longrightarrow>
   \<exists>q \<in> set qs. truthy (q_feedback q) \<and> q_id q = i \<and> loaded_feedback q = f"
  unfolding initialFeedbacks_def by (drule foldl_upd_origin) simp

lemma initialSubmissionStates_origin:
  "initialSubmissionStates qs i = Some b \<Longrightarrow> \<exists>q \<in> set qs. truthy (q_feedback q) \<and> q_id q = i"
  unfolding initialSubmissionStates_def by (drule foldl_upd_origin) auto

lemma same_id_same_question:
  "distinct (map q_id qs) \<Longrightarrow> q \<in> set qs \<Longrightarrow> q' \<in> set qs \<Longrightarrow> q_id q' = q_id q \<Longrightarrow> q' = q"
  by (meson distinct_map inj_onD)

text \<open>With distinct question ids, a freshly loaded question is completed exactly when its
  stored score is at least 0.7.\<close>

lemma loaded_isCompleted:
  assumes "distinct (map q_id (questions d))" and "q \<in> set (questions d)"
  shows "isCompleted (fetchSession st (Inr d)) q \<longleftrightarrow> ge (q_score q) (7 / 10)"
proof
  assume c: "isCompleted (fetchSession st (Inr d)) q"
  show "ge (q_score q) (7 / 10)"
  proof (rule ccontr)
    assume n: "\<not> ge (q_score q) (7 / 10)"
    with c obtain f where f: "initialFeedbacks (questions d) (q_id q) = Some f" "isSufficient f"
      by (auto simp: isCompleted_def flagged_sufficient_def fetchSession_def split: option.splits)
    from initialFeedbacks_origin [OF f(1)] obtain q' where
      "q' \<in> set (questions d)" "q_id q' = q_id q" "isSufficient f = ge (q_score q') (7 / 10)"
      by (auto simp: loaded_feedback_def)
    with assms same_id_same_question have "isSufficient f = ge (q_score q) (7 / 10)"
      by blast
    with f(2) n show False by simp
  qed
next
  assume "ge (q_score q) (7 / 10)"
  then show "isCompleted (fetchSession st (Inr d)) q" by (simp add: isCompleted_def)
qed

text \<open>A freshly loaded question without feedback and without a sufficient score shows the
  ``Submit Answer'' button only.\<close>

lemma loaded_fresh_buttons:
  assumes "distinct (map q_id (questions d))" and "q \<in> set (questions d)"
    and "\<not> truthy (q_feedback q)" and "\<not> ge (q_score q) (7 / 10)"
  shows "submit_buttons (fetchSession st (Inr d)) q = [js ''initial'']"
proof -
  have nc: "\<not> isCompleted (fetchSession st (Inr d)) q"
    using loaded_isCompleted [OF assms(1,2)] assms(4) by simp
  have "initialSubmissionStates (questions d) (q_id q) = None"
  proof (rule ccontr)
    assume "initialSubmissionStates (questions d) (q_id q) \<noteq> None"
    then obtain b where "initialSubmissionStates (questions d) (q_id q) = Some b" by auto
    from initialSubmissionStates_origin [OF this] obtain q' where
      "q' \<in> set (questions d)" "truthy (q_feedback q')" "q_id q' = q_id q" by blast
    with same_id_same_question [OF assms(1,2)] assms(3) show False by blast
  qed
  then have nf: "\<not> hasFirstSubmission (fetchSession st (Inr d)) q"
    by (simp add: hasFirstSubmission_def fetchSession_def)
  from nc nf show ?thesis
    by (simp add: submit_buttons_def showActionButtons_def)
qed

subsection \<open>The completion banner of the view\<close>

text \<open>
  The banner flag of the view looks at sufficiency only. In the one-question session, a
  \<open>final\<close> submission scored 0.3 is posted and the session is fetched again with that score
  stored; the question is finalized, yet the flag stays false and the banner is not shown.
\<close>

lemma view_banner_after_low_final:
  "snd (submitAnswer view_after_initial 1 (js ''final'')
            (Inr (answer_reply (js ''final'') (sample_evaluation (3 / 10))))
            (Inr (sample_session (answered_question (3 / 10)))))
     = [PostAnswer 1 (js ''To build character'') (js ''final''), GetSession]
   \<and> \<not> allCompleted
     (fst (submitAnswer view_after_initial 1 (js ''final'')
            (Inr (answer_reply (js ''final'') (sample_evaluation (3 / 10))))
            (Inr (sample_session (answered_question (3 / 10))))))"
  by (simp add: sample_defs view_defs allCompleted_def)

text \<open>For a freshly loaded session with distinct question ids the flag holds exactly when
  every stored score is at least 0.7.\<close>

lemma view_banner_loaded:
  assumes "distinct (map q_id (questions d))"
  shows "allCompleted (fetchSession st (Inr d))
           \<longleftrightarrow> list_all (\<lambda>q. ge (q_score q) (7 / 10)) (questions d)"
proof -
  have "allCompleted (fetchSession st (Inr d))
      \<longleftrightarrow> list_all (isCompleted (fetchSession st (Inr d))) (questions d)"
    by (simp add: allCompleted_def isCompleted_def [abs_def] fetchSession_def)
  also have "\<dots> \<longleftrightarrow> list_all (\<lambda>q. ge (q_score q) (7 / 10)) (questions d)"
    using loaded_isCompleted [OF assms] by (simp add: list_all_iff)
  finally show ?thesis .
qed

subsection \<open>The retry and final buttons of the view\<close>

text \<open>
  Right after an \<open>initial\<close> submission that scores below 0.7 and whose reply carries example
  answers, the view renders exactly the \<open>retry\<close> and \<open>final\<close> buttons, enabled. Right after
  a \<open>retry\<close> submission that scores below 0.7 it renders neither of them, although both
  are still legal on the server: the feedback block and the buttons are guarded by
  \<open>feedback.submissionType === 'initial'\<close>.
\<close>

lemma view_retry_final_buttons:
  assumes "\<not> no_answer (answers st i)" and "q_id q = i" and "\<not> ge (q_score q) (7 / 10)"
    and "ev_score ev < 7 / 10"
  shows "(ev_examples ev \<noteq> [] \<longrightarrow>
            submit_buttons
              (fst (submitAnswer st i (js ''initial'')
                      (Inr (answer_reply (js ''initial'') ev)) fetched)) q
              = [js ''retry'', js ''final'']
            \<and> \<not> buttons_disabled
              (fst (submitAnswer st i (js ''initial'')
                      (Inr (answer_reply (js ''initial'') ev)) fetched)) q)
         \<and> set (submit_buttons
                  (fst (submitAnswer st i (js ''retry'')
                          (Inr (answer_reply (js ''retry'') ev)) fetched)) q)
             \<inter> {js ''retry'', js ''final''} = {}"
proof
  have ne: "js ''initial'' \<noteq> js ''final''" "js ''retry'' \<noteq> js ''final''"
    "js ''retry'' \<noteq> js ''initial''"
    by (simp_all add: js_def)
  show "ev_examples ev \<noteq> [] \<longrightarrow>
            submit_buttons
              (fst (submitAnswer st i (js ''initial'')
                      (Inr (answer_reply (js ''initial'') ev)) fetched)) q
              = [js ''retry'', js ''final'']
            \<and> \<not> buttons_disabled
              (fst (submitAnswer st i (js ''initial'')
                      (Inr (answer_reply (js ''initial'') ev)) fetched)) q"
    using assms ne
    by (simp add: submitAnswer_def answer_reply_def submit_buttons_def isCompleted_def
        flagged_sufficient_def hasFirstSubmission_def showActionButtons_def
        feedback_from_initial_def buttons_disabled_def Let_def)
  show "set (submit_buttons
                  (fst (submitAnswer st i (js ''retry'')
                          (Inr (answer_reply (js ''retry'') ev)) fetched)) q)
             \<inter> {js ''retry'', js ''final''} = {}"
    using assms ne
    by (simp add: submitAnswer_def answer_reply_def submit_buttons_def isCompleted_def
        flagged_sufficient_def hasFirstSubmission_def showActionButtons_def
        feedback_from_initial_def Let_def)
qed

lemma view_after_failed_retry:
  "submit_buttons
     (fst (submitAnswer view_after_initial 1 (js ''retry'')
            (Inr (answer_reply (js ''retry'') (sample_evaluation (5 / 10)))) (Inl network_down)))
     sample_question = []"
  by (simp add: sample_defs view_defs)

subsection \<open>After a final submission\<close>

lemma foldl_upd_marked:
  "m0 x = Some True \<or> (\<exists>q \<in> set qs. P q \<and> k q = x) \<Longrightarrow>
   foldl (\<lambda>m q. if P q then m(k q \<mapsto> True) else m) m0 qs x = Some True"
proof (induction qs arbitrary: m0)
  case Nil
  then show ?case by simp
next
  case (Cons a qs)
  have "(if P a then m0(k a \<mapsto> True) else m0) x = Some True
        \<or> (\<exists>q \<in> set qs. P q \<and> k q = x)"
    using Cons.prems by auto
  then have "foldl (\<lambda>m q. if P q then m(k q \<mapsto> True) else m)
          (if P a then m0(k a \<mapsto> True) else m0) qs x = Some True"
    by (rule Cons.IH [of "if P a then m0(k a \<mapsto> True) else m0"])
  then show ?case by simp
qed

lemma initialSubmissionStates_marked:
  "q \<in> set qs \<Longrightarrow> truthy (q_feedback q) \<Longrightarrow> initialSubmissionStates qs (q_id q) = Some True"
  unfolding initialSubmissionStates_def by (rule foldl_upd_marked) blast

lemma loaded_not_from_initial: "\<not> feedback_from_initial (fetchSession st (Inr d)) q"
proof (cases "initialFeedbacks (questions d) (q_id q)")
  case None
  then show ?thesis by (simp add: feedback_from_initial_def fetchSession_def)
next
  case (Some f)
  from initialFeedbacks_origin [OF this] have "submissionType f = None"
    by (auto simp: loaded_feedback_def)
  with Some show ?thesis by (simp add: feedback_from_initial_def fetchSession_def)
qed

text \<open>
  After a posted \<open>final\<close> submission the view renders no submit button for the question:
  when the session fetch fails because the buttons followed an \<open>initial\<close> feedback that is
  now replaced, and when it succeeds because the reloaded feedback carries no submission
  type and the question's stored feedback marks the first submission as made.
\<close>

lemma finalized_no_buttons:
  assumes "\<not> no_answer (answers st i)" and "q_id q = i"
    and "case fetched of Inl err \<Rightarrow> hasFirstSubmission st q
                       | Inr d \<Rightarrow> q \<in> set (questions d) \<and> truthy (q_feedback q)"
  shows "submit_buttons
           (fst (submitAnswer st i (js ''final'') (Inr (answer_reply (js ''final'') ev)) fetched))
           q = []"
proof (cases fetched)
  case (Inl err)
  have "js ''final'' \<noteq> js ''initial''" by (simp add: js_def)
  with Inl assms show ?thesis
    by (simp add: submitAnswer_def answer_reply_def fetchSession_def submit_buttons_def
        hasFirstSubmission_def feedback_from_initial_def showActionButtons_def Let_def)
next
  case (Inr d)
  with assms(3) have "hasFirstSubmission (fetchSession st' (Inr d)) q" for st'
    by (simp add: hasFirstSubmission_def fetchSession_def initialSubmissionStates_marked)
  moreover have "\<not> feedback_from_initial (fetchSession st' (Inr d)) q" for st'
    by (rule loaded_not_from_initial)
  ultimately show ?thesis using Inr assms(1)
    by (simp add: submitAnswer_def submit_buttons_def Let_def)
qed

section \<open>Properties of the server's state machine and aggregator\<close>

lemma derivedState_snoc:
  "derivedState (history @ [a]) =
     (if isTerminal (derivedState history) then derivedState history
      else state_after (row_type a) (row_score a))"
  by (simp add: derivedState_def)

lemma recordSubmission_success:
  assumes "recordSubmission history ty text evaluated = Inr (history', s')"
  shows "\<not> isTerminal (derivedState history) \<and> ty \<in> set (legalTypes (derivedState history))
         \<and> (\<exists>a. history' = history @ [a] \<and> row_type a = ty \<and> row_text a = text
               \<and> s' = state_after ty (row_score a))"
  using assms by (auto simp: recordSubmission_def split: if_splits option.splits)

text \<open>
  C2: whenever a \<open>final\<close> submission is recorded, whatever its score, the state returned
  and the state derived from the new history are \<open>FINALIZED\<close>, a terminal state, and every
  later submission with an answer text, of any type and whatever the evaluator would
  return, is refused with \<open>QuestionAlreadyComplete\<close>. On the client, a \<open>final\<close> submission
  that is posted is always followed by a fetch of the session, whatever the reply says.
\<close>

theorem final_submission_finalizes:
  assumes "recordSubmission history Final text evaluated = Inr (history', s')"
  shows "s' = FINALIZED \<and> isTerminal s' \<and> derivedState history' = FINALIZED
         \<and> (trim text' \<noteq> [] \<longrightarrow>
              recordSubmission history' ty' text' evaluated' = Inl QuestionAlreadyComplete)
         \<and> (\<not> no_answer (answers st i) \<longrightarrow>
              snd (submitAnswer st i (js ''final'') (Inr data) fetched)
                = [PostAnswer i (the (answers st i)) (js ''final''), GetSession])"
proof -
  from recordSubmission_success [OF assms] obtain a where
    nt: "\<not> isTerminal (derivedState history)" and
    h': "history' = history @ [a]" and
    ty: "row_type a = Final" and
    s': "s' = state_after Final (row_score a)"
    by blast
  from s' have fin: "s' = FINALIZED" by (simp add: state_after_def)
  from h' nt ty have d: "derivedState history' = FINALIZED"
    by (simp add: derivedState_snoc state_after_def)
  from fin d show ?thesis
    by (simp add: isTerminal_def recordSubmission_def submitAnswer_def Let_def)
qed

theorem final_submission_finalizes_witness:
  "recordSubmission [sample_row Initial (4 / 10)] Final (js ''To build character'')
       (Some (sample_evaluation (3 / 10)))
     = Inr ([sample_row Initial (4 / 10), sample_row Final (3 / 10)], FINALIZED)
   \<and> trim (js ''Another try'') \<noteq> []
   \<and> recordSubmission [sample_row Initial (4 / 10), sample_row Final (3 / 10)] Retry
        (js ''Another try'') (Some (sample_evaluation (9 / 10))) = Inl QuestionAlreadyComplete
   \<and> \<not> no_answer (answers view_after_initial 1)
   \<and> snd (submitAnswer view_after_initial 1 (js ''final'')
        (Inr (answer_reply (js ''final'') (sample_evaluation (3 / 10))))
        (Inr (sample_session (answered_question (3 / 10)))))
       = [PostAnswer 1 (the (answers view_after_initial 1)) (js ''final''), GetSession]"
proof -
  have a: "recordSubmission [sample_row Initial (4 / 10)] Final (js ''To build character'')
       (Some (sample_evaluation (3 / 10)))
     = Inr ([sample_row Initial (4 / 10), sample_row Final (3 / 10)], FINALIZED)"
    by (simp add: recordSubmission_def derivedState_def state_after_def isTerminal_def
        threshold_def sample_row_def sample_evaluation_def trim_def is_js_space_def js_def)
  have b: "trim (js ''Another try'') \<noteq> []"
    by (simp add: trim_def is_js_space_def js_def)
  have c: "\<not> no_answer (answers view_after_initial 1)"
    by (simp add: sample_defs view_defs)
  from final_submission_finalizes [OF a, of "js ''Another try''" Retry
      "Some (sample_evaluation (9 / 10))" view_after_initial 1
      "answer_reply (js ''final'') (sample_evaluation (3 / 10))"
      "Inr (sample_session (answered_question (3 / 10)))"] a b c
  show ?thesis by blast
qed









text \<open>
  C6: a question with no recorded answer is in state \<open>NOT_ATTEMPTED\<close>, where \<open>initial\<close> is
  the only legal submission type, and a submission of any other type with an answer text
  is refused with \<open>InvalidSubmissionOrder\<close>. On the client, a freshly loaded question that
  has no feedback and no sufficient score shows the \<open>initial\<close> submit button and no other.
\<close>

theorem no_answers_only_initial:
  "derivedState [] = NOT_ATTEMPTED
   \<and> set (legalTypes (derivedState [])) = {Initial}
   \<and> (ty \<noteq> Initial \<and> trim text \<noteq> [] \<longrightarrow>
        recordSubmission [] ty text evaluated = Inl InvalidSubmissionOrder)
   \<and> (distinct (map q_id (questions d)) \<and> q \<in> set (questions d) \<and> \<not> truthy (q_feedback q)
        \<and> \<not> ge (q_score q) (7 / 10) \<longrightarrow>
        submit_buttons (fetchSession st (Inr d)) q = [js ''initial''])"
  by (cases ty) (simp_all add: derivedState_def recordSubmission_def isTerminal_def
       loaded_fresh_buttons)

theorem no_answers_only_initial_witness:
  "Retry \<noteq> Initial \<and> trim (js ''To build character'') \<noteq> []
   \<and> recordSubmission [] Retry (js ''To build character'') (Some (sample_evaluation (9 / 10)))
       = Inl InvalidSubmissionOrder
   \<and> distinct (map q_id (questions (sample_session sample_question)))
   \<and> sample_question \<in> set (questions (sample_session sample_question))
   \<and> \<not> truthy (q_feedback sample_question) \<and> \<not> ge (q_score sample_question) (7 / 10)
   \<and> submit_buttons (fetchSession initial_view (Inr (sample_session sample_question)))
        sample_question = [js ''initial'']"
proof -
  have a: "trim (js ''To build character'') \<noteq> []"
    by (simp add: trim_def is_js_space_def js_def)
  have b: "distinct (map q_id (questions (sample_session sample_question)))"
    "sample_question \<in> set (questions (sample_session sample_question))"
    "\<not> truthy (q_feedback sample_question)" "\<not> ge (q_score sample_question) (7 / 10)"
    by (simp_all add: sample_session_def sample_question_def)
  from no_answers_only_initial [of Retry "js ''To build character''"
      "Some (sample_evaluation (9 / 10))" "sample_session sample_question" sample_question
      initial_view] a b
  show ?thesis by blast
qed

lemma getTerminalAnswers_recompute:
  "getTerminalAnswers (recomputeReadingLevel scale st) = getTerminalAnswers st"
  by (simp add: recomputeReadingLevel_def getTerminalAnswers_def Let_def)

text \<open>
  C7: \<open>recomputeReadingLevel\<close> changes nothing but the reading level; running it a second
  time with no new answer in between changes nothing at all; and two runs that see the
  same terminal scores and the same grade level (and, when there is no terminal answer
  yet, the same current reading level) produce the same reading level, whatever else the
  stores hold. This holds for every scaling curve.
\<close>

theorem recomputeReadingLevel_deterministic:
  "recomputeReadingLevel scale (recomputeReadingLevel scale st) = recomputeReadingLevel scale st
   \<and> store_answers (recomputeReadingLevel scale st) = store_answers st
   \<and> user_grade_level (store_user (recomputeReadingLevel scale st))
       = user_grade_level (store_user st)
   \<and> (map row_score (getTerminalAnswers st) = map row_score (getTerminalAnswers st')
        \<and> user_grade_level (store_user st) = user_grade_level (store_user st')
        \<and> (getTerminalAnswers st = [] \<longrightarrow>
             user_reading_level (store_user st) = user_reading_level (store_user st'))
      \<longrightarrow> user_reading_level (store_user (recomputeReadingLevel scale st))
            = user_reading_level (store_user (recomputeReadingLevel scale st')))"
proof -
  have idem: "recomputeReadingLevel scale (recomputeReadingLevel scale st)
      = recomputeReadingLevel scale st"
    by (simp add: recomputeReadingLevel_def getTerminalAnswers_def Let_def)
  have keep: "store_answers (recomputeReadingLevel scale st) = store_answers st"
    "user_grade_level (store_user (recomputeReadingLevel scale st))
       = user_grade_level (store_user st)"
    by (simp_all add: recomputeReadingLevel_def Let_def)
  have same: "user_reading_level (store_user (recomputeReadingLevel scale st))
            = user_reading_level (store_user (recomputeReadingLevel scale st'))"
    if "map row_score (getTerminalAnswers st) = map row_score (getTerminalAnswers st')"
      and "user_grade_level (store_user st) = user_grade_level (store_user st')"
      and "getTerminalAnswers st = [] \<longrightarrow>
             user_reading_level (store_user st) = user_reading_level (store_user st')"
  proof (cases "getTerminalAnswers st = []")
    case True
    with that(1) have "getTerminalAnswers st' = []" by simp
    with True that(3) show ?thesis by (simp add: recomputeReadingLevel_def)
  next
    case False
    with that(1) have "getTerminalAnswers st' \<noteq> []" by auto
    with False that(1,2) show ?thesis by (simp add: recomputeReadingLevel_def Let_def)
  qed
  from idem keep same show ?thesis by blast
qed

theorem recomputeReadingLevel_deterministic_witness:
  "map row_score (getTerminalAnswers (sample_store 0
        [sample_row Initial (9 / 10), sample_row Initial (4 / 10), sample_row Final (6 / 10),
         sample_row Retry (75 / 100)]))
     = map row_score (getTerminalAnswers (sample_store 3
        [sample_row Initial (9 / 10), sample_row Final (6 / 10), sample_row Initial (75 / 100)]))
   \<and> user_reading_level (store_user (recomputeReadingLevel (linear_scale 5) (sample_store 0
        [sample_row Initial (9 / 10), sample_row Initial (4 / 10), sample_row Final (6 / 10),
         sample_row Retry (75 / 100)]))) = 17 / 4
   \<and> user_reading_level (store_user (recomputeReadingLevel (linear_scale 5) (sample_store 3
        [sample_row Initial (9 / 10), sample_row Final (6 / 10), sample_row Initial (75 / 100)])))
       = 17 / 4"
proof -
  have a: "map row_score (getTerminalAnswers (sample_store 0
        [sample_row Initial (9 / 10), sample_row Initial (4 / 10), sample_row Final (6 / 10),
         sample_row Retry (75 / 100)]))
     = map row_score (getTerminalAnswers (sample_store 3
        [sample_row Initial (9 / 10), sample_row Final (6 / 10), sample_row Initial (75 / 100)]))"
    by (simp add: getTerminalAnswers_def is_terminal_answer_def threshold_def sample_store_def
        sample_row_def)
  have b: "user_reading_level (store_user (recomputeReadingLevel (linear_scale 5)
        (sample_store 0
        [sample_row Initial (9 / 10), sample_row Initial (4 / 10), sample_row Final (6 / 10),
         sample_row Retry (75 / 100)]))) = 17 / 4"
    by (simp add: recomputeReadingLevel_def getTerminalAnswers_def is_terminal_answer_def
        threshold_def sample_store_def sample_row_def linear_scale_def mean_def)
  have c: "getTerminalAnswers (sample_store 0
        [sample_row Initial (9 / 10), sample_row Initial (4 / 10), sample_row Final (6 / 10),
         sample_row Retry (75 / 100)]) \<noteq> []"
    by (simp add: getTerminalAnswers_def is_terminal_answer_def threshold_def sample_store_def
        sample_row_def)
  have d: "user_grade_level (store_user (sample_store 0
        [sample_row Initial (9 / 10), sample_row Initial (4 / 10), sample_row Final (6 / 10),
         sample_row Retry (75 / 100)]))
     = user_grade_level (store_user (sample_store 3
        [sample_row Initial (9 / 10), sample_row Final (6 / 10), sample_row Initial (75 / 100)]))"
    by (simp add: sample_store_def)
  from recomputeReadingLevel_deterministic [of "linear_scale 5" "sample_store 0
        [sample_row Initial (9 / 10), sample_row Initial (4 / 10), sample_row Final (6 / 10),
         sample_row Retry (75 / 100)]" "sample_store 3
        [sample_row Initial (9 / 10), sample_row Final (6 / 10), sample_row Initial (75 / 100)]"]
    a b c d
  show ?thesis by metis
qed

end
